theory Spec2Isabelle
  imports Complex_Main "HOL-Library.Sublist"
begin

section \<open>Country resolution, mainland extraction and river classification\<close>

text \<open>
  The theory embeds the three pieces of logic of \<^verbatim>\<open>generate_country_map\<close> and
  \<^verbatim>\<open>plot_stylish_map\<close> (\<^verbatim>\<open>app.py\<close>; \<^verbatim>\<open>rivers.py\<close> holds the same statements at
  module level):
  \<^item> \<open>resolve\<close>: the selection of the country rows (\<^verbatim>\<open>app.py\<close> 244-256);
  \<^item> \<open>extract_mainland\<close>: the largest part of the selection (\<^verbatim>\<open>app.py\<close> 258-278);
  \<^item> \<open>classify\<close>: the size classes of the rivers (\<^verbatim>\<open>app.py\<close> 146-158).

  Floating point numbers are read as real numbers (no NaN among areas, no rounding); a
  missing value of a numeric column (NaN) is \<open>None\<close>. What the code takes from shapely,
  pyproj and geopandas (the area and the length of a geometry, the coordinate
  transformation, the union of a geometry column) is a parameter of the model.
\<close>

subsection \<open>Strings\<close>

text \<open>
  A character is read as the code point of the same number, so the model covers the
  strings of code points below 256. \<^verbatim>\<open>str.strip()\<close> removes the white space of
  \<^verbatim>\<open>str.isspace\<close> at both ends, \<^verbatim>\<open>str.lower()\<close> maps \<^verbatim>\<open>A-Z\<close> and the upper case
  letters of Latin-1 to their lower case.
\<close>

definition isspace :: "char \<Rightarrow> bool" where
  "isspace c = ((of_char c :: nat) \<in> {9, 10, 11, 12, 13, 28, 29, 30, 31, 32, 133, 160})"

definition strip :: "string \<Rightarrow> string" where
  "strip s = rev (dropWhile isspace (rev (dropWhile isspace s)))"

definition lower_char :: "char \<Rightarrow> char" where
  "lower_char c =
     (let n = (of_char c :: nat)
      in if (65 \<le> n \<and> n \<le> 90) \<or> (192 \<le> n \<and> n \<le> 222 \<and> n \<noteq> 215)
         then char_of (n + 32) else c)"

definition lower :: "string \<Rightarrow> string" where
  "lower s = map lower_char s"

subsection \<open>Errors\<close>

datatype error =
    NotFound string
  | ReError string
  | AttributeError
  | ValueError
  | IndexError

subsection \<open>The pattern of \<^verbatim>\<open>Series.str.contains\<close>\<close>

text \<open>
  \<^verbatim>\<open>Series.str.contains(pat)\<close> is called with its defaults, so \<^verbatim>\<open>pat\<close> is a regular
  expression (\<^verbatim>\<open>regex=True\<close>): the pattern is compiled once and an element is selected
  when \<^verbatim>\<open>re.search\<close> finds a match in it. The model gives the meaning of the patterns
  made of ordinary characters and dots (a dot matches every character but the newline);
  a pattern with another special character is left to the parameter \<open>re_other\<close>, which
  returns the match predicate of the pattern, or \<open>None\<close> when the pattern does not compile.
\<close>

definition re_special :: "char list" where
  "re_special = ''.^$*+?{}[]|()'' @ [CHR 0x5C]"

fun match_here :: "string \<Rightarrow> string \<Rightarrow> bool" where
  "match_here [] s = True"
| "match_here (p # ps) [] = False"
| "match_here (p # ps) (c # cs) =
     ((if p = CHR ''.'' then c \<noteq> CHR 0x0A else p = c) \<and> match_here ps cs)"

fun re_search :: "string \<Rightarrow> string \<Rightarrow> bool" where
  "re_search pat [] = match_here pat []"
| "re_search pat (c # cs) = (match_here pat (c # cs) \<or> re_search pat cs)"

definition str_contains ::
  "(string \<Rightarrow> (string \<Rightarrow> bool) option) \<Rightarrow> string \<Rightarrow> error + (string \<Rightarrow> bool)" where
  "str_contains re_other pat =
     (if \<forall>c \<in> set pat. c \<in> set re_special \<longrightarrow> c = CHR ''.''
      then Inr (re_search pat)
      else (case re_other pat of
              None \<Rightarrow> Inl (ReError pat)
            | Some m \<Rightarrow> Inr m))"

subsection \<open>Geometries\<close>

text \<open>
  The geometry types of shapely. \<open>'p\<close> is the coordinate data of a geometry that is not
  a collection. \<^verbatim>\<open>geom_type\<close> is the name of the type, \<^verbatim>\<open>geoms\<close> the members of a
  collection (the attribute is missing on the other types).
\<close>

datatype 'p geom =
    Point 'p
  | LineString 'p
  | LinearRing 'p
  | Polygon 'p
  | MultiPoint "'p list"
  | MultiLineString "'p list"
  | MultiPolygon "'p list"
  | GeometryCollection "'p geom list"

fun geom_type :: "'p geom \<Rightarrow> string" where
  "geom_type (Point p) = ''Point''"
| "geom_type (LineString p) = ''LineString''"
| "geom_type (LinearRing p) = ''LinearRing''"
| "geom_type (Polygon p) = ''Polygon''"
| "geom_type (MultiPoint ps) = ''MultiPoint''"
| "geom_type (MultiLineString ps) = ''MultiLineString''"
| "geom_type (MultiPolygon ps) = ''MultiPolygon''"
| "geom_type (GeometryCollection gs) = ''GeometryCollection''"

fun geoms :: "'p geom \<Rightarrow> 'p geom list option" where
  "geoms (MultiPoint ps) = Some (map Point ps)"
| "geoms (MultiLineString ps) = Some (map LineString ps)"
| "geoms (MultiPolygon ps) = Some (map Polygon ps)"
| "geoms (GeometryCollection gs) = Some gs"
| "geoms g = None"

datatype crs = EPSG nat

text \<open>
  The library: \<open>transform src dst\<close> maps the coordinates of a geometry from one reference
  system to another, \<open>coords_area\<close> is the area inside the coordinates of a polygon,
  \<open>coords_empty\<close> tells that there are no coordinates (\<^verbatim>\<open>POLYGON EMPTY\<close>), and
  \<open>unary_union\<close> is the union of a geometry column.
\<close>

record 'p geolib =
  transform :: "crs \<Rightarrow> crs \<Rightarrow> 'p \<Rightarrow> 'p"
  coords_area :: "'p \<Rightarrow> real"
  coords_empty :: "'p \<Rightarrow> bool"
  unary_union :: "'p geom option list \<Rightarrow> 'p geom"

fun area :: "'p geolib \<Rightarrow> 'p geom \<Rightarrow> real" where
  "area lib (Polygon p) = coords_area lib p"
| "area lib (MultiPolygon ps) = sum_list (map (coords_area lib) ps)"
| "area lib (GeometryCollection gs) = sum_list (map (area lib) gs)"
| "area lib g = 0"


subsection \<open>The countries\<close>

text \<open>
  A row of the countries dataset with the columns the code reads, and the frame with its
  reference system. A geometry may be missing (\<open>None\<close>). The frames read from the
  dataset carry a reference system, so \<^verbatim>\<open>to_crs\<close> does not fail on them.
\<close>

record 'p country_feature =
  SOVEREIGNT :: string
  TYPE_attr :: string
  geometry :: "'p geom option"

record 'p country_frame =
  crs :: crs
  rows :: "'p country_feature list"

definition to_crs_geometry :: "'p geolib \<Rightarrow> crs \<Rightarrow> crs \<Rightarrow> 'p geom \<Rightarrow> 'p geom" where
  "to_crs_geometry lib src dst g = map_geom (transform lib src dst) g"

definition to_crs :: "'p geolib \<Rightarrow> crs \<Rightarrow> 'p country_frame \<Rightarrow> 'p country_frame" where
  "to_crs lib dst gdf =
     \<lparr>crs = dst,
      rows = map (\<lambda>r. r\<lparr>geometry := map_option (to_crs_geometry lib (crs gdf) dst) (geometry r)\<rparr>)
               (rows gdf)\<rparr>"

subsubsection \<open>resolve\<close>

text \<open>
  \<^verbatim>\<open>
  country_input = country_name.strip()
  selected_country = country_gdf[
      (country_gdf["SOVEREIGNT"].str.lower() == country_input.lower())
      & (country_gdf["TYPE"] != "Dependency")]
  if selected_country.empty:
      mask = country_gdf["SOVEREIGNT"].str.lower().str.contains(country_input.lower())
      selected_country = country_gdf[mask & (country_gdf["TYPE"] != "Dependency")]
  if selected_country.empty:
      raise ValueError(f"Country '{country_name}' not found. Try a different name.")
  \<close>
  The error of the last line is \<open>NotFound\<close>.
\<close>

definition resolve ::
  "(string \<Rightarrow> (string \<Rightarrow> bool) option) \<Rightarrow> 'p country_frame \<Rightarrow> string \<Rightarrow> error + 'p country_frame" where
  "resolve re_other country_gdf country_name =
     (let country_input = strip country_name;
          selected_country = country_gdf\<lparr>rows :=
            filter (\<lambda>r. lower (SOVEREIGNT r) = lower country_input \<and> TYPE_attr r \<noteq> ''Dependency'')
              (rows country_gdf)\<rparr>
      in if rows selected_country \<noteq> [] then Inr selected_country
         else (case str_contains re_other (lower country_input) of
                 Inl e \<Rightarrow> Inl e
               | Inr mask_sel \<Rightarrow>
                   (let selected_country = country_gdf\<lparr>rows :=
                          filter (\<lambda>r. mask_sel (lower (SOVEREIGNT r)) \<and> TYPE_attr r \<noteq> ''Dependency'')
                            (rows country_gdf)\<rparr>
                    in if rows selected_country = [] then Inl (NotFound country_name)
                       else Inr selected_country)))"

subsubsection \<open>extract_mainland\<close>

text \<open>
  The loop over the geometries of the reprojected selection, with the list \<^verbatim>\<open>parts\<close>
  as accumulator:
  \<^verbatim>\<open>
  for geom in selected_3857.geometry:
      if geom is None:
          continue
      if geom.geom_type in ["MultiPolygon", "GeometryCollection"]:
          for part in geom.geoms:
              parts.append(part)
      else:
          parts.append(geom)
  \<close>
\<close>

fun collect_parts :: "'p geom option list \<Rightarrow> 'p geom list \<Rightarrow> error + 'p geom list" where
  "collect_parts [] parts = Inr parts"
| "collect_parts (None # rest) parts = collect_parts rest parts"
| "collect_parts (Some geom # rest) parts =
     (if geom_type geom \<in> set [''MultiPolygon'', ''GeometryCollection'']
      then (case geoms geom of
              None \<Rightarrow> Inl AttributeError
            | Some gs \<Rightarrow> collect_parts rest (parts @ gs))
      else collect_parts rest (parts @ [geom]))"

text \<open>
  \<^verbatim>\<open>np.argmax\<close>: the index of the first occurrence of the maximum; a \<^verbatim>\<open>ValueError\<close>
  (here \<open>None\<close>) on an empty sequence. \<open>argmax_from xs i best v\<close> scans the rest \<open>xs\<close>
  of the sequence from index \<open>i\<close>, with the best index and its value so far.
\<close>

fun argmax_from :: "real list \<Rightarrow> nat \<Rightarrow> nat \<Rightarrow> real \<Rightarrow> nat" where
  "argmax_from [] i best v = best"
| "argmax_from (x # xs) i best v =
     (if v < x then argmax_from xs (Suc i) i x else argmax_from xs (Suc i) best v)"

definition argmax :: "real list \<Rightarrow> nat option" where
  "argmax xs = (case xs of [] \<Rightarrow> None | x # rest \<Rightarrow> Some (argmax_from rest 1 0 x))"

text \<open>
  \<^verbatim>\<open>mainland_gdf\<close> is either the selection itself (\<^verbatim>\<open>mainland_gdf = selected_country\<close>)
  or a new frame with a geometry column only
  (\<^verbatim>\<open>gpd.GeoDataFrame(geometry=[mainland_mask], crs=selected_country.crs)\<close>).
\<close>

datatype 'p mainland_gdf =
    Selected "'p country_frame"
  | Fresh crs "'p geom option list"



text \<open>
  \<^verbatim>\<open>
  selected_3857 = selected_country.to_crs(epsg=3857)
  parts = []
  (the loop)
  if len(parts) == 0:
      mainland_mask = selected_country.geometry.unary_union
      mainland_gdf = selected_country
  else:
      areas = [g.area for g in parts]
      largest_idx = int(np.argmax(areas))
      largest = parts[largest_idx]
      mainland_3857 = gpd.GeoSeries([largest], crs=3857)
      mainland_mask = mainland_3857.to_crs(selected_country.crs).geometry.iloc[0]
      mainland_gdf = gpd.GeoDataFrame(geometry=[mainland_mask], crs=selected_country.crs)
  \<close>
  The result is the pair of \<^verbatim>\<open>mainland_mask\<close> and \<^verbatim>\<open>mainland_gdf\<close>.
\<close>

definition parts_3857 :: "'p geolib \<Rightarrow> 'p country_frame \<Rightarrow> error + 'p geom list" where
  "parts_3857 lib selected_country =
     collect_parts (map geometry (rows (to_crs lib (EPSG 3857) selected_country))) []"

definition extract_mainland ::
  "'p geolib \<Rightarrow> 'p country_frame \<Rightarrow> error + ('p geom \<times> 'p mainland_gdf)" where
  "extract_mainland lib selected_country =
     (case parts_3857 lib selected_country of
        Inl e \<Rightarrow> Inl e
      | Inr parts \<Rightarrow>
          if length parts = 0
          then Inr (unary_union lib (map geometry (rows selected_country)),
                    Selected selected_country)
          else (let areas = map (area lib) parts
                in case argmax areas of
                     None \<Rightarrow> Inl ValueError
                   | Some largest_idx \<Rightarrow>
                       if largest_idx < length parts
                       then (let largest = parts ! largest_idx;
                                 mainland_mask =
                                   to_crs_geometry lib (EPSG 3857) (crs selected_country) largest
                             in Inr (mainland_mask,
                                     Fresh (crs selected_country) [Some mainland_mask]))
                       else Inl IndexError))"

subsection \<open>The rivers\<close>

text \<open>
  A row of the rivers frame: its numeric columns by name (\<open>None\<close> is a missing value),
  its geometry of a type \<open>'g\<close> that the code only measures, and the column
  \<^verbatim>\<open>_size_cat\<close>, which is \<open>None\<close> where the frame has no category. The frame lists the
  names of its columns.
\<close>

datatype size_class = small | medium | large

record 'g river_feature =
  attrs :: "string \<Rightarrow> real option"
  river_geometry :: "'g option"
  size_cat :: "size_class option"

record 'g river_frame =
  columns :: "string list"
  features :: "'g river_feature list"

subsubsection \<open>classify\<close>

text \<open>
  \<^verbatim>\<open>
  if "UPLAND_SKM" in rivers_3857.columns:
      metric = rivers_3857["UPLAND_SKM"].fillna(0).astype(float)
  else:
      metric = rivers_3857.geometry.length
  \<close>
  \<open>geom_length\<close> is the length of a geometry; the length of a missing geometry is NaN.
\<close>

definition fillna :: "real \<Rightarrow> real option \<Rightarrow> real option" where
  "fillna d v = (case v of None \<Rightarrow> Some d | Some x \<Rightarrow> Some x)"

definition metric_of :: "('g \<Rightarrow> real) \<Rightarrow> 'g river_frame \<Rightarrow> real option list" where
  "metric_of geom_length rivers_3857 =
     (if ''UPLAND_SKM'' \<in> set (columns rivers_3857)
      then map (\<lambda>r. fillna 0 (attrs r ''UPLAND_SKM'')) (features rivers_3857)
      else map (\<lambda>r. map_option geom_length (river_geometry r)) (features rivers_3857))"

text \<open>
  \<^verbatim>\<open>Series.max()\<close> skips the missing values and is NaN when nothing is left.
  \<^verbatim>\<open>
  if metric.max() > 0:
      rel = metric / metric.max()
  else:
      rel = metric
  \<close>
  A comparison with NaN is false.
\<close>

definition series_max :: "real option list \<Rightarrow> real option" where
  "series_max metric =
     (let vs = List.map_filter id metric
      in if vs = [] then None else Some (Max (set vs)))"

definition rel_of :: "real option list \<Rightarrow> real option list" where
  "rel_of metric =
     (case series_max metric of
        None \<Rightarrow> metric
      | Some mx \<Rightarrow> if mx > 0 then map (map_option (\<lambda>v. v / mx)) metric else metric)"

text \<open>
  \<^verbatim>\<open>pd.cut(rel, bins=[-1, 0.33, 0.66, 1.0], labels=["small", "medium", "large"])\<close>:
  the bins are open on the left and closed on the right; a value in no bin, or a missing
  value, has no category.
\<close>

definition cut_value :: "real \<Rightarrow> size_class option" where
  "cut_value x =
     (if -1 < x \<and> x \<le> 0.33 then Some small
      else if 0.33 < x \<and> x \<le> 0.66 then Some medium
      else if 0.66 < x \<and> x \<le> 1.0 then Some large
      else None)"

definition pd_cut :: "real option list \<Rightarrow> size_class option list" where
  "pd_cut rel = map (\<lambda>v. case v of None \<Rightarrow> None | Some x \<Rightarrow> cut_value x) rel"

text \<open>
  \<^verbatim>\<open>rivers_3857 = rivers_3857.assign(_size_cat=cats)\<close>: every row takes its category;
  the column is added to the names of the columns when it is new.
\<close>

definition assign_size_cat :: "'g river_frame \<Rightarrow> size_class option list \<Rightarrow> 'g river_frame" where
  "assign_size_cat rivers_3857 cats =
     \<lparr>columns = (if ''_size_cat'' \<in> set (columns rivers_3857) then columns rivers_3857
                 else columns rivers_3857 @ [''_size_cat'']),
      features = map (\<lambda>(r, c). r\<lparr>size_cat := c\<rparr>) (zip (features rivers_3857) cats)\<rparr>"

definition classify :: "('g \<Rightarrow> real) \<Rightarrow> 'g river_frame \<Rightarrow> 'g river_frame" where
  "classify geom_length rivers_3857 =
     (let metric = metric_of geom_length rivers_3857;
          rel = rel_of metric;
          cats = pd_cut rel
      in assign_size_cat rivers_3857 cats)"

subsection \<open>The parts of a geometry\<close>

text \<open>
  The parts of one geometry, by one level of flattening: a multi-polygon or a geometry
  collection gives its members, any other geometry is one part, a missing geometry has
  none. The loop \<open>collect_parts\<close> is compared with this function below.
\<close>

fun parts_of :: "'p geom option \<Rightarrow> 'p geom list" where
  "parts_of None = []"
| "parts_of (Some (MultiPolygon ps)) = map Polygon ps"
| "parts_of (Some (GeometryCollection gs)) = gs"
| "parts_of (Some g) = [g]"




subsection \<open>A small instance for the worked examples\<close>

text \<open>
  Coordinates are the vertices of a closed ring, the area is the shoelace formula, and
  the transformation to EPSG:3857 doubles the coordinates (the way back halves them).
  \<open>example_union\<close> collects the geometries that are present: on a column without
  geometries the union is the empty collection.
\<close>

type_synonym ring = "(real \<times> real) list"

fun shoelace :: "ring \<Rightarrow> real" where
  "shoelace ((x1, y1) # (x2, y2) # ps) = x1 * y2 - x2 * y1 + shoelace ((x2, y2) # ps)"
| "shoelace ps = 0"

definition ring_area :: "ring \<Rightarrow> real" where
  "ring_area ps = \<bar>shoelace ps\<bar> / 2"

definition scale_ring :: "real \<Rightarrow> ring \<Rightarrow> ring" where
  "scale_ring k ps = map (\<lambda>(x, y). (k * x, k * y)) ps"

definition example_transform :: "crs \<Rightarrow> crs \<Rightarrow> ring \<Rightarrow> ring" where
  "example_transform src dst ps =
     (if src = dst then ps
      else if dst = EPSG 3857 then scale_ring 2 ps
      else if src = EPSG 3857 then scale_ring (1 / 2) ps
      else ps)"

definition example_union :: "ring geom option list \<Rightarrow> ring geom" where
  "example_union gs = GeometryCollection (List.map_filter id gs)"

definition example_lib :: "ring geolib" where
  "example_lib =
     \<lparr>transform = example_transform, coords_area = ring_area,
      coords_empty = List.null, unary_union = example_union\<rparr>"

definition square :: "real \<Rightarrow> real \<Rightarrow> real \<Rightarrow> ring" where
  "square x y a = [(x, y), (x + a, y), (x + a, y + a), (x, y + a), (x, y)]"

definition country :: "string \<Rightarrow> string \<Rightarrow> 'p geom option \<Rightarrow> 'p country_feature" where
  "country name type g = \<lparr>SOVEREIGNT = name, TYPE_attr = type, geometry = g\<rparr>"

definition wgs84 :: "'p country_feature list \<Rightarrow> 'p country_frame" where
  "wgs84 rs = \<lparr>crs = EPSG 4326, rows = rs\<rparr>"

definition re_unknown :: "string \<Rightarrow> (string \<Rightarrow> bool) option" where
  "re_unknown pat = None"

text \<open>A river with an upstream area, a river without one, and their frames.\<close>

definition river :: "real option \<Rightarrow> real list option \<Rightarrow> real list river_feature" where
  "river upland g =
     \<lparr>attrs = (\<lambda>c. if c = ''UPLAND_SKM'' then upland else None),
      river_geometry = g, size_cat = None\<rparr>"

definition upland_frame :: "real option list \<Rightarrow> real list river_frame" where
  "upland_frame us =
     \<lparr>columns = [''HYRIV_ID'', ''UPLAND_SKM'', ''geometry''],
      features = map (\<lambda>u. river u None) us\<rparr>"

definition length_frame :: "real list option list \<Rightarrow> real list river_frame" where
  "length_frame gs =
     \<lparr>columns = [''HYRIV_ID'', ''geometry''],
      features = map (\<lambda>g. river None g) gs\<rparr>"

text \<open>
  Four selections: a country of three islands and a fourth polygon, with a row without
  geometry; a selection of two rows without geometry; a selection whose only geometry
  is the empty polygon; a selection whose geometry is a collection that holds a
  multi-polygon of two squares and a smaller polygon.
\<close>

definition italy :: "ring country_frame" where
  "italy = wgs84 [country ''Italy'' ''Sovereign country''
                    (Some (MultiPolygon [square 0 0 1, square 10 10 3, square 20 0 3])),
                  country ''Italy'' ''Sovereign country'' None,
                  country ''Italy'' ''Sovereign country'' (Some (Polygon (square 5 5 2)))]"




section \<open>The river classifier\<close>

subsection \<open>The series keep their length\<close>

lemma length_metric_of: "length (metric_of gl rv) = length (features rv)"
  by (simp add: metric_of_def)

lemma length_rel_of: "length (rel_of m) = length m"
  by (simp add: rel_of_def split: option.splits)

lemma length_pd_cut: "length (pd_cut rel) = length rel"
  by (simp add: pd_cut_def)

lemma length_cats: "length (pd_cut (rel_of (metric_of gl rv))) = length (features rv)"
  by (simp add: length_pd_cut length_rel_of length_metric_of)

lemma features_classify:
  "features (classify gl rv) =
     map (\<lambda>(r, c). r\<lparr>size_cat := c\<rparr>) (zip (features rv) (pd_cut (rel_of (metric_of gl rv))))"
  by (simp add: classify_def assign_size_cat_def)

lemma size_cat_classify:
  "map size_cat (features (classify gl rv)) = pd_cut (rel_of (metric_of gl rv))"
proof -
  have "map size_cat (map (\<lambda>(r, c). r\<lparr>size_cat := c\<rparr>) (zip xs cs)) = cs"
    if "length cs = length xs" for xs :: "'a river_feature list" and cs
    using that by (induction xs cs rule: list_induct2') auto
  then show ?thesis
    by (simp add: features_classify length_cats)
qed

subsection \<open>The maximum of a series\<close>

lemma series_max_ge:
  assumes "series_max m = Some mx" and "Some v \<in> set m"
  shows "v \<le> mx"
proof -
  have "v \<in> set (List.map_filter id m)"
    using assms(2) by (force simp: List.map_filter_def)
  moreover have "mx = Max (set (List.map_filter id m))"
    using assms(1) by (simp add: series_max_def Let_def split: if_splits)
  ultimately show ?thesis by simp
qed

lemma series_max_mem:
  assumes "series_max m = Some mx"
  shows "Some mx \<in> set m"
proof -
  have ne: "List.map_filter id m \<noteq> []" and mx: "mx = Max (set (List.map_filter id m))"
    using assms by (simp_all add: series_max_def Let_def split: if_splits)
  have "Max (set (List.map_filter id m)) \<in> set (List.map_filter id m)"
    using ne by (intro Max_in) auto
  then show ?thesis using mx by (auto simp: List.map_filter_def)
qed


lemma upland_eval: "metric_of gl (upland_frame us) = map (fillna 0) us"
  by (simp add: metric_of_def upland_frame_def river_def comp_def)

subsection \<open>Normalised bins\<close>



subsection \<open>A maximum that is not positive\<close>

text \<open>
  When the maximum is not positive the raw values are cut. A raw value above -1 is small;
  the first bin is open at -1, so a raw value of -1 or less is in no bin.
\<close>

lemma classify_degenerate:
  assumes "series_max (metric_of gl rv) = Some mx" and "mx \<le> 0"
    and "i < length (features rv)" and "metric_of gl rv ! i = Some v"
  shows "v \<le> 0 \<and> size_cat (features (classify gl rv) ! i) = (if -1 < v then Some small else None)"
proof -
  let ?m = "metric_of gl rv"
  have len: "i < length ?m" using assms(3) by (simp add: length_metric_of)
  have "Some v \<in> set ?m" using len assms(4) by (metis nth_mem)
  then have "v \<le> mx" using assms(1) by (rule series_max_ge[rotated])
  then have v0: "v \<le> 0" using assms(2) by simp
  have rel: "rel_of ?m = ?m" using assms(1,2) by (simp add: rel_of_def)
  have "size_cat (features (classify gl rv) ! i) = map size_cat (features (classify gl rv)) ! i"
    using assms(3) by (simp add: features_classify length_cats)
  also have "\<dots> = pd_cut ?m ! i" by (simp add: size_cat_classify rel)
  also have "\<dots> = cut_value v" using len assms(4) by (simp add: pd_cut_def)
  finally show ?thesis using v0 by (simp add: cut_value_def)
qed

text \<open>
  Claim C5. With a maximum that is not positive every feature is to be small. On the
  upstream areas -5 and 0 the maximum is 0, the raw values are cut, and the river of
  area -5 has no class.
\<close>

theorem classify_negative_metric_unclassified:
  "series_max (metric_of gl (upland_frame [Some (-5), Some 0])) = Some 0 \<and>
   map size_cat (features (classify gl (upland_frame [Some (-5), Some 0]))) = [None, Some small]"
  by (simp add: size_cat_classify upland_eval fillna_def rel_of_def series_max_def
      List.map_filter_def pd_cut_def cut_value_def)

subsection \<open>The source of the metric\<close>

text \<open>
  Claim C6. When the frame has the column UPLAND_SKM, the metric of every feature is
  the value of that column, 0 for a missing value; when the frame has no such column, the
  metric of every feature is the length of its geometry. The classes are cut from this
  metric.
\<close>

theorem classify_metric_by_schema:
  assumes "i < length (features rv)"
  shows "(''UPLAND_SKM'' \<in> set (columns rv) \<longrightarrow>
            metric_of gl rv ! i =
              (case attrs (features rv ! i) ''UPLAND_SKM'' of None \<Rightarrow> Some 0 | Some v \<Rightarrow> Some v)) \<and>
         (''UPLAND_SKM'' \<notin> set (columns rv) \<longrightarrow>
            metric_of gl rv ! i = map_option gl (river_geometry (features rv ! i))) \<and>
         map size_cat (features (classify gl rv)) = pd_cut (rel_of (metric_of gl rv))"
  using assms by (simp add: metric_of_def fillna_def size_cat_classify)

theorem classify_metric_by_schema_witness:
  "(1::nat) < length (features (upland_frame [Some 10, None, Some 1000])) \<and>
   metric_of sum_list (upland_frame [Some 10, None, Some 1000]) ! 1 = Some 0 \<and>
   (0::nat) < length (features (length_frame [Some [3, 4], Some [1]])) \<and>
   metric_of sum_list (length_frame [Some [3, 4], Some [1]]) ! 0 = Some 7"
  using classify_metric_by_schema [of 1 "upland_frame [Some 10, None, Some 1000]" sum_list]
    classify_metric_by_schema [of 0 "length_frame [Some [3, 4], Some [1]]" sum_list]
  by (simp add: upland_frame_def length_frame_def river_def)

subsection \<open>The frame around the annotation\<close>

text \<open>
  Claim C8. The classified frame has as many features as the input, in the same order,
  with the same attributes and geometries: without the category the rows are the rows of
  the input. The only new column is the category.
\<close>

theorem classify_keeps_features:
  "length (features (classify gl rv)) = length (features rv) \<and>
   map attrs (features (classify gl rv)) = map attrs (features rv) \<and>
   map river_geometry (features (classify gl rv)) = map river_geometry (features rv) \<and>
   map (\<lambda>r. r\<lparr>size_cat := None\<rparr>) (features (classify gl rv)) =
     map (\<lambda>r. r\<lparr>size_cat := None\<rparr>) (features rv) \<and>
   set (columns (classify gl rv)) = insert ''_size_cat'' (set (columns rv))"
proof -
  have *: "length cs = length xs \<Longrightarrow>
       map attrs (map (\<lambda>(r, c). r\<lparr>size_cat := c\<rparr>) (zip xs cs)) = map attrs xs \<and>
       map river_geometry (map (\<lambda>(r, c). r\<lparr>size_cat := c\<rparr>) (zip xs cs)) =
         map river_geometry xs \<and>
       map (\<lambda>r. r\<lparr>size_cat := None\<rparr>) (map (\<lambda>(r, c). r\<lparr>size_cat := c\<rparr>) (zip xs cs)) =
         map (\<lambda>r. r\<lparr>size_cat := None\<rparr>) xs"
    for xs :: "'a river_feature list" and cs
    by (induction xs cs rule: list_induct2') auto
  have "set (columns (classify gl rv)) = insert ''_size_cat'' (set (columns rv))"
    by (auto simp: classify_def assign_size_cat_def)
  then show ?thesis
    using *[of "pd_cut (rel_of (metric_of gl rv))" "features rv"]
    by (simp add: features_classify length_cats)
qed

section \<open>The country resolver\<close>

subsection \<open>Blank strings and plain patterns\<close>

lemma strip_blank:
  assumes "\<forall>c\<in>set q. isspace c"
  shows "strip q = []"
proof -
  have d: "dropWhile isspace q = []" using assms by simp
  show ?thesis unfolding strip_def d by simp
qed

lemma lower_eq_Nil: "lower s = [] \<longleftrightarrow> s = []"
  by (simp add: lower_def)

lemma re_search_Nil: "re_search [] s = True"
  by (cases s) simp_all

lemma match_here_plain:
  "CHR ''.'' \<notin> set pat \<Longrightarrow> match_here pat s \<longleftrightarrow> prefix pat s"
  by (induction pat s rule: match_here.induct) auto

lemma re_search_plain:
  "CHR ''.'' \<notin> set pat \<Longrightarrow> re_search pat s \<longleftrightarrow> sublist pat s"
  by (induction s) (auto simp: match_here_plain sublist_Cons_right)

lemma str_contains_plain:
  "\<forall>c\<in>set pat. c \<notin> set re_special \<Longrightarrow> str_contains re_other pat = Inr (re_search pat)"
  by (auto simp: str_contains_def)

lemma plain_no_dot: "\<forall>c\<in>set pat. c \<notin> set re_special \<Longrightarrow> CHR ''.'' \<notin> set pat"
  by (auto simp: re_special_def)

text \<open>
  A query without a special character of regular expressions is resolved as the
  specification says: the exact matches that are no dependencies; when there are none,
  the rows that are no dependencies and whose name contains the query; when there are
  none either, the error.
\<close>

lemma resolve_plain_query:
  assumes "\<forall>c\<in>set (lower (strip q)). c \<notin> set re_special"
  shows "resolve re_other gdf q =
          (let exact = filter (\<lambda>r. lower (SOVEREIGNT r) = lower (strip q) \<and>
                                   TYPE_attr r \<noteq> ''Dependency'') (rows gdf);
               sub = filter (\<lambda>r. sublist (lower (strip q)) (lower (SOVEREIGNT r)) \<and>
                                 TYPE_attr r \<noteq> ''Dependency'') (rows gdf)
           in if exact \<noteq> [] then Inr (gdf\<lparr>rows := exact\<rparr>)
              else if sub \<noteq> [] then Inr (gdf\<lparr>rows := sub\<rparr>)
              else Inl (NotFound q))"
  using assms
  by (simp add: resolve_def Let_def str_contains_plain re_search_plain[OF plain_no_dot])

lemma resolve_no_dependency:
  assumes "resolve re_other gdf q = Inr sel"
  shows "\<forall>r\<in>set (rows sel). TYPE_attr r \<noteq> ''Dependency'' \<and> r \<in> set (rows gdf)"
  using assms
  by (auto simp: resolve_def Let_def split: if_splits sum.splits)

lemma resolve_selection_not_empty:
  assumes "resolve re_other gdf q = Inr sel"
  shows "rows sel \<noteq> [] \<and> crs sel = crs gdf"
  using assms
  by (auto simp: resolve_def Let_def split: if_splits sum.splits)

subsection \<open>The query is a pattern\<close>

text \<open>
  Claim C2. The second step is to select the rows whose name contains the trimmed query
  as a substring, and to fail when there are none. The query \<^verbatim>\<open>Ind.a\<close> is no substring
  of \<^verbatim>\<open>india\<close> and equals no name, but it is resolved to India: the dot of the
  pattern stands for the letter \<^verbatim>\<open>i\<close>.
\<close>

theorem resolve_pattern_is_regex:
  "resolve re_other
     (wgs84 [country ''India'' ''Sovereign country'' (None :: ring geom option)]) ''Ind.a'' =
     Inr (wgs84 [country ''India'' ''Sovereign country'' None]) \<and>
   \<not> sublist (lower (strip ''Ind.a'')) (lower ''India'')"
  by (simp add: resolve_def wgs84_def country_def strip_def isspace_def lower_def lower_char_def
      str_contains_def re_special_def char_of_eq_iff sublist_Cons_right)

subsection \<open>The blank query\<close>

text \<open>
  Claim C9, as amended. When no name of the dataset is empty and the query is empty or
  white space only, no row matches exactly and the pattern matches every name: the query
  is resolved to all the rows that are no dependencies when there is one, and fails with
  the error when there is none.
\<close>

theorem resolve_blank_query:
  assumes "\<forall>r\<in>set (rows gdf). SOVEREIGNT r \<noteq> []" and "\<forall>c\<in>set q. isspace c"
  shows "resolve re_other gdf q =
          (if filter (\<lambda>r. TYPE_attr r \<noteq> ''Dependency'') (rows gdf) = [] then Inl (NotFound q)
           else Inr (gdf\<lparr>rows := filter (\<lambda>r. TYPE_attr r \<noteq> ''Dependency'') (rows gdf)\<rparr>))"
proof -
  have s: "strip q = []" using assms(2) by (rule strip_blank)
  have e: "filter (\<lambda>r. lower (SOVEREIGNT r) = lower [] \<and> TYPE_attr r \<noteq> ''Dependency'')
             (rows gdf) = []"
    using assms(1) by (auto simp: filter_empty_conv lower_def)
  have c: "str_contains re_other (lower []) = Inr (re_search [])"
    by (simp add: str_contains_def lower_def)
  show ?thesis
    by (simp add: resolve_def Let_def s e c re_search_Nil)
qed

theorem resolve_blank_query_witness:
  "resolve re_unknown (wgs84 [country ''Italy'' ''Sovereign country'' None,
       country ''United Kingdom'' ''Dependency'' None,
       country ''India'' ''Country'' (None :: ring geom option)]) ''  '' =
   Inr (wgs84 [country ''Italy'' ''Sovereign country'' None, country ''India'' ''Country'' None])"
  using resolve_blank_query [of "wgs84 [country ''Italy'' ''Sovereign country'' None,
       country ''United Kingdom'' ''Dependency'' None,
       country ''India'' ''Country'' (None :: ring geom option)]" "''  ''" re_unknown]
  by (simp add: wgs84_def country_def isspace_def)

text \<open>
  The claim as it was stated fails on a dataset whose only row is a dependency: the name
  is not empty and the blank query fails with the error.
\<close>

theorem resolve_blank_query_counterexample:
  "SOVEREIGNT (country ''United States of America'' ''Dependency'' (None :: ring geom option)) \<noteq> [] \<and>
   resolve re_unknown
     (wgs84 [country ''United States of America'' ''Dependency'' (None :: ring geom option)]) '' '' =
     Inl (NotFound '' '')"
  by (simp add: resolve_def wgs84_def country_def strip_def isspace_def lower_def lower_char_def
      str_contains_def)

section \<open>The mainland extractor\<close>

subsection \<open>The loop and the parts\<close>

lemma geom_type_map_geom [simp]: "geom_type (map_geom f g) = geom_type g"
  by (cases g) simp_all

lemma parts_of_map_geom:
  "parts_of (map_option (map_geom f) g) = map (map_geom f) (parts_of g)"
proof (cases g)
  case None
  then show ?thesis by simp
next
  case (Some x)
  then show ?thesis by (cases x) simp_all
qed

lemma collect_parts_step:
  "collect_parts (g # rest) parts = collect_parts rest (parts @ parts_of g)"
proof (cases g)
  case None
  then show ?thesis by simp
next
  case (Some x)
  then show ?thesis by (cases x) simp_all
qed

lemma collect_parts_eq:
  "collect_parts gs parts = Inr (parts @ concat (map parts_of gs))"
proof (induction gs arbitrary: parts)
  case Nil
  then show ?case by simp
next
  case (Cons g gs)
  show ?case unfolding collect_parts_step Cons.IH by simp
qed

lemma parts_3857_eq:
  "parts_3857 lib sel =
     Inr (map (to_crs_geometry lib (crs sel) (EPSG 3857))
            (concat (map (\<lambda>r. parts_of (geometry r)) (rows sel))))"
proof -
  have "concat (map parts_of (map geometry (rows (to_crs lib (EPSG 3857) sel)))) =
        map (to_crs_geometry lib (crs sel) (EPSG 3857))
            (concat (map (\<lambda>r. parts_of (geometry r)) (rows sel)))"
    unfolding to_crs_def
    by (induction "rows sel" arbitrary: sel)
       (simp_all add: map_concat comp_def parts_of_map_geom to_crs_geometry_def[abs_def])
  then show ?thesis
    by (simp add: parts_3857_def collect_parts_eq)
qed

lemma argmax_from_spec:
  assumes "length pre = i" and "best < i" and "pre ! best = v"
    and "\<forall>j<i. pre ! j \<le> v" and "\<forall>j<best. pre ! j < v"
  shows "argmax_from xs i best v < length (pre @ xs) \<and>
         (\<forall>j<length (pre @ xs). (pre @ xs) ! j \<le> (pre @ xs) ! argmax_from xs i best v) \<and>
         (\<forall>j<argmax_from xs i best v. (pre @ xs) ! j < (pre @ xs) ! argmax_from xs i best v)"
  using assms
proof (induction xs arbitrary: pre i best v)
  case Nil
  then show ?case by auto
next
  case (Cons x xs)
  show ?case
  proof (cases "v < x")
    case True
    have "argmax_from xs (Suc i) i x < length ((pre @ [x]) @ xs) \<and>
         (\<forall>j<length ((pre @ [x]) @ xs). ((pre @ [x]) @ xs) ! j \<le> ((pre @ [x]) @ xs) ! argmax_from xs (Suc i) i x) \<and>
         (\<forall>j<argmax_from xs (Suc i) i x. ((pre @ [x]) @ xs) ! j < ((pre @ [x]) @ xs) ! argmax_from xs (Suc i) i x)"
    proof (rule Cons.IH)
      show "length (pre @ [x]) = Suc i" using Cons.prems(1) by simp
      show "i < Suc i" by simp
      show "(pre @ [x]) ! i = x" using Cons.prems(1) by (simp add: nth_append)
      show "\<forall>j<Suc i. (pre @ [x]) ! j \<le> x"
        using Cons.prems(1,4) True by (auto simp: nth_append less_Suc_eq intro: order_trans less_imp_le)
      show "\<forall>j<i. (pre @ [x]) ! j < x"
        using Cons.prems(1,4) True by (auto simp: nth_append intro: le_less_trans)
    qed
    then show ?thesis using True by simp
  next
    case False
    have "argmax_from xs (Suc i) best v < length ((pre @ [x]) @ xs) \<and>
         (\<forall>j<length ((pre @ [x]) @ xs). ((pre @ [x]) @ xs) ! j \<le> ((pre @ [x]) @ xs) ! argmax_from xs (Suc i) best v) \<and>
         (\<forall>j<argmax_from xs (Suc i) best v. ((pre @ [x]) @ xs) ! j < ((pre @ [x]) @ xs) ! argmax_from xs (Suc i) best v)"
    proof (rule Cons.IH)
      show "length (pre @ [x]) = Suc i" using Cons.prems(1) by simp
      show "best < Suc i" using Cons.prems(2) by simp
      show "(pre @ [x]) ! best = v" using Cons.prems(1,2,3) by (simp add: nth_append)
      show "\<forall>j<Suc i. (pre @ [x]) ! j \<le> v"
        using Cons.prems(1,4) False by (auto simp: nth_append less_Suc_eq)
      show "\<forall>j<best. (pre @ [x]) ! j < v"
        using Cons.prems(1,2,5) by (auto simp: nth_append)
    qed
    then show ?thesis using False by simp
  qed
qed

lemma argmax_spec:
  assumes "xs \<noteq> []"
  shows "\<exists>i. argmax xs = Some i \<and> i < length xs \<and>
           (\<forall>j<length xs. xs ! j \<le> xs ! i) \<and> (\<forall>j<i. xs ! j < xs ! i)"
proof -
  obtain x rest where xs: "xs = x # rest" using assms by (cases xs) auto
  have "argmax_from rest 1 0 x < length ([x] @ rest) \<and>
         (\<forall>j<length ([x] @ rest). ([x] @ rest) ! j \<le> ([x] @ rest) ! argmax_from rest 1 0 x) \<and>
         (\<forall>j<argmax_from rest 1 0 x. ([x] @ rest) ! j < ([x] @ rest) ! argmax_from rest 1 0 x)"
    by (rule argmax_from_spec) simp_all
  then show ?thesis by (simp add: xs argmax_def)
qed


lemma extract_mainland_fallback_eq:
  assumes "concat (map (\<lambda>r. parts_of (geometry r)) (rows sel)) = []"
  shows "extract_mainland lib sel =
           Inr (unary_union lib (map geometry (rows sel)), Selected sel)"
  using assms by (simp add: extract_mainland_def parts_3857_eq)

lemma extract_mainland_largest_eq:
  assumes "parts = map (to_crs_geometry lib (crs sel) (EPSG 3857))
                     (concat (map (\<lambda>r. parts_of (geometry r)) (rows sel)))"
    and "parts \<noteq> []"
  shows "\<exists>i<length parts.
           (\<forall>j<length parts. area lib (parts ! j) \<le> area lib (parts ! i)) \<and>
           (\<forall>j<i. area lib (parts ! j) < area lib (parts ! i)) \<and>
           extract_mainland lib sel =
             Inr (to_crs_geometry lib (EPSG 3857) (crs sel) (parts ! i),
                  Fresh (crs sel) [Some (to_crs_geometry lib (EPSG 3857) (crs sel) (parts ! i))])"
proof -
  have ne: "map (area lib) parts \<noteq> []" using assms(2) by simp
  obtain i where i: "argmax (map (area lib) parts) = Some i" "i < length (map (area lib) parts)"
    "\<forall>j<length (map (area lib) parts). map (area lib) parts ! j \<le> map (area lib) parts ! i"
    "\<forall>j<i. map (area lib) parts ! j < map (area lib) parts ! i"
    using argmax_spec[OF ne] by blast
  have il: "i < length parts" using i(2) by simp
  have p: "parts_3857 lib sel = Inr parts" by (simp add: parts_3857_eq assms(1))
  have "extract_mainland lib sel =
             Inr (to_crs_geometry lib (EPSG 3857) (crs sel) (parts ! i),
                  Fresh (crs sel) [Some (to_crs_geometry lib (EPSG 3857) (crs sel) (parts ! i))])"
    using assms(2) il by (simp add: extract_mainland_def p i(1) Let_def)
  moreover have "\<forall>j<length parts. area lib (parts ! j) \<le> area lib (parts ! i)"
    using i(3) il by simp
  moreover have "\<forall>j<i. area lib (parts ! j) < area lib (parts ! i)"
    using i(4) il by simp
  ultimately show ?thesis using il by blast
qed

lemma parts_3857_parts_of:
  "parts_3857 lib sel =
     Inr (concat (map parts_of (map geometry (rows (to_crs lib (EPSG 3857) sel)))))"
  by (simp add: parts_3857_def collect_parts_eq)

subsection \<open>The largest part\<close>

lemma extract_mainland_cases:
  assumes "parts = map (to_crs_geometry lib (crs sel) (EPSG 3857))
                     (concat (map (\<lambda>r. parts_of (geometry r)) (rows sel)))"
  shows "(parts = [] \<and>
            extract_mainland lib sel =
              Inr (unary_union lib (map geometry (rows sel)), Selected sel)) \<or>
         (\<exists>i<length parts.
            extract_mainland lib sel =
              Inr (to_crs_geometry lib (EPSG 3857) (crs sel) (parts ! i),
                   Fresh (crs sel) [Some (to_crs_geometry lib (EPSG 3857) (crs sel) (parts ! i))]))"
proof (cases "parts = []")
  case True
  then have "concat (map (\<lambda>r. parts_of (geometry r)) (rows sel)) = []"
    using assms by simp
  then show ?thesis using True by (simp add: extract_mainland_fallback_eq)
next
  case False
  then show ?thesis using extract_mainland_largest_eq[OF assms False] by blast
qed


lemma italy_parts:
  "concat (map parts_of (map geometry (rows (to_crs example_lib (EPSG 3857) italy)))) =
     [Polygon (square 0 0 2), Polygon (square 20 20 6), Polygon (square 40 0 6),
      Polygon (square 10 10 4)]"
  by (simp add: to_crs_def italy_def wgs84_def country_def
      to_crs_geometry_def example_lib_def example_transform_def scale_ring_def square_def)


lemma italy_back:
  "to_crs_geometry example_lib (EPSG 3857) (crs italy) (Polygon (square 20 20 6)) =
     Polygon (square 10 10 3)"
  by (simp add: to_crs_geometry_def example_lib_def example_transform_def scale_ring_def
      square_def italy_def wgs84_def)


subsection \<open>A multi-polygon inside a collection\<close>




subsection \<open>The fallback\<close>





subsection \<open>The shape of the result\<close>


lemma parts_reprojected:
  "concat (map parts_of (map geometry (rows (to_crs lib (EPSG 3857) sel)))) =
     map (to_crs_geometry lib (crs sel) (EPSG 3857))
       (concat (map (\<lambda>r. parts_of (geometry r)) (rows sel)))"
proof -
  have "Inr (concat (map parts_of (map geometry (rows (to_crs lib (EPSG 3857) sel))))) =
        parts_3857 lib sel"
    by (simp only: parts_3857_parts_of)
  then show ?thesis by (simp add: parts_3857_eq)
qed

lemma italy_extract:
  "extract_mainland example_lib italy =
     Inr (Polygon (square 10 10 3), Fresh (EPSG 4326) [Some (Polygon (square 10 10 3))])"
proof -
  let ?parts = "[Polygon (square 0 0 2), Polygon (square 20 20 6), Polygon (square 40 0 6),
      Polygon (square 10 10 4)]"
  have ne: "?parts \<noteq> []" by simp
  have eq: "?parts = map (to_crs_geometry example_lib (crs italy) (EPSG 3857))
                     (concat (map (\<lambda>r. parts_of (geometry r)) (rows italy)))"
    using italy_parts by (simp only: parts_reprojected)
  obtain i where i: "i < length ?parts"
    and le: "\<forall>j<length ?parts. area example_lib (?parts ! j) \<le> area example_lib (?parts ! i)"
    and lt: "\<forall>j<i. area example_lib (?parts ! j) < area example_lib (?parts ! i)"
    and e: "extract_mainland example_lib italy =
             Inr (to_crs_geometry example_lib (EPSG 3857) (crs italy) (?parts ! i),
                  Fresh (crs italy)
                    [Some (to_crs_geometry example_lib (EPSG 3857) (crs italy) (?parts ! i))])"
    using extract_mainland_largest_eq [OF eq ne] by blast
  have a0: "area example_lib (?parts ! 0) = 4" and a1: "area example_lib (?parts ! 1) = 36"
    and a2: "area example_lib (?parts ! 2) = 36" and a3: "area example_lib (?parts ! 3) = 16"
    by (simp_all add: example_lib_def ring_area_def square_def)
  have l1: "area example_lib (?parts ! 1) \<le> area example_lib (?parts ! i)"
    using le [rule_format, of 1] by simp
  have "i = 0 \<or> i = 1 \<or> i = 2 \<or> i = 3" using i by auto
  then have "i = 1"
  proof (elim disjE)
    assume "i = 0"
    then show ?thesis using l1 a0 a1 by simp
  next
    assume "i = 1"
    then show ?thesis .
  next
    assume i2: "i = 2"
    then have "area example_lib (?parts ! 1) < area example_lib (?parts ! 2)"
      using lt [rule_format, of 1] by simp
    then show ?thesis using a1 a2 by simp
  next
    assume "i = 3"
    then show ?thesis using l1 a1 a3 by simp
  qed
  then show ?thesis
    using e italy_back by (simp add: italy_def wgs84_def)
qed





subsection \<open>Rows without geometry\<close>

lemma parts_skip_null:
  "concat (map (\<lambda>r. parts_of (geometry r)) (filter (\<lambda>r. geometry r \<noteq> None) rs)) =
   concat (map (\<lambda>r. parts_of (geometry r)) rs)"
  by (induction rs) auto

lemma parts_3857_skip_null:
  "parts_3857 lib (sel\<lparr>rows := filter (\<lambda>r. geometry r \<noteq> None) (rows sel)\<rparr>) = parts_3857 lib sel"
  by (simp add: parts_3857_eq parts_skip_null del: not_None_eq)

lemma part_of_present:
  assumes "q \<in> set (concat (map (\<lambda>r. parts_of (geometry r)) rs))"
  shows "\<exists>r\<in>set rs. \<exists>g. geometry r = Some g \<and> q \<in> set (parts_of (Some g))"
proof -
  obtain r where r: "r \<in> set rs" "q \<in> set (parts_of (geometry r))"
    using assms by auto
  then obtain g where "geometry r = Some g" by (cases "geometry r") auto
  then show ?thesis using r by auto
qed

text \<open>
  Claim C10. On every selection, so also on one that mixes rows with and without
  geometry, the extractor returns a result; the loop finds the same parts as on the
  selection without the rows that have no geometry; a mask taken from the parts is a
  part of a geometry that is present, transformed to EPSG:3857 and back; and the fallback
  (the result whose region is the selection itself) is taken exactly when every row has
  no geometry or a geometry without parts.
\<close>

theorem extract_mainland_skips_null:
  "(\<exists>mask gdf. extract_mainland lib sel = Inr (mask, gdf)) \<and>
   parts_3857 lib (sel\<lparr>rows := filter (\<lambda>r. geometry r \<noteq> None) (rows sel)\<rparr>) =
     parts_3857 lib sel \<and>
   (\<forall>mask c gs. extract_mainland lib sel = Inr (mask, Fresh c gs) \<longrightarrow>
      gs = [Some mask] \<and>
      (\<exists>r\<in>set (rows sel). \<exists>g. geometry r = Some g \<and>
         mask \<in> to_crs_geometry lib (EPSG 3857) (crs sel) `
                  set (parts_of (Some (to_crs_geometry lib (crs sel) (EPSG 3857) g))))) \<and>
   ((\<exists>mask s. extract_mainland lib sel = Inr (mask, Selected s)) \<longleftrightarrow>
      (\<forall>r\<in>set (rows sel). parts_of (geometry r) = []))"
proof -
  define parts where "parts = map (to_crs_geometry lib (crs sel) (EPSG 3857))
                     (concat (map (\<lambda>r. parts_of (geometry r)) (rows sel)))"
  have empty: "parts = [] \<longleftrightarrow> (\<forall>r\<in>set (rows sel). parts_of (geometry r) = [])"
    by (simp add: parts_def)
  have origin: "\<exists>r\<in>set (rows sel). \<exists>g. geometry r = Some g \<and>
         to_crs_geometry lib (EPSG 3857) (crs sel) (parts ! i) \<in>
           to_crs_geometry lib (EPSG 3857) (crs sel) `
                  set (parts_of (Some (to_crs_geometry lib (crs sel) (EPSG 3857) g)))"
    if i: "i < length parts" for i
  proof -
    have "parts ! i \<in> set parts" using i by simp
    then obtain q where q: "q \<in> set (concat (map (\<lambda>r. parts_of (geometry r)) (rows sel)))"
      and pq: "parts ! i = to_crs_geometry lib (crs sel) (EPSG 3857) q"
      unfolding parts_def by auto
    obtain r g where r: "r \<in> set (rows sel)" "geometry r = Some g" "q \<in> set (parts_of (Some g))"
      using part_of_present [OF q] by blast
    have "parts_of (Some (to_crs_geometry lib (crs sel) (EPSG 3857) g)) =
          map (to_crs_geometry lib (crs sel) (EPSG 3857)) (parts_of (Some g))"
      using parts_of_map_geom [of "transform lib (crs sel) (EPSG 3857)" "Some g"]
      by (simp add: to_crs_geometry_def [abs_def])
    then have "parts ! i \<in> set (parts_of (Some (to_crs_geometry lib (crs sel) (EPSG 3857) g)))"
      using r(3) pq by simp
    then show ?thesis using r(1,2) by blast
  qed
  from extract_mainland_cases [OF parts_def] show ?thesis
  proof (elim disjE exE conjE)
    assume p: "parts = []" and e: "extract_mainland lib sel =
              Inr (unary_union lib (map geometry (rows sel)), Selected sel)"
    have "\<forall>r\<in>set (rows sel). parts_of (geometry r) = []" using p empty by simp
    then show ?thesis using e by (simp add: parts_3857_skip_null del: not_None_eq)
  next
    fix i
    assume i: "i < length parts"
      and e: "extract_mainland lib sel =
              Inr (to_crs_geometry lib (EPSG 3857) (crs sel) (parts ! i),
                   Fresh (crs sel) [Some (to_crs_geometry lib (EPSG 3857) (crs sel) (parts ! i))])"
    have ne: "\<not> (\<forall>r\<in>set (rows sel). parts_of (geometry r) = [])"
      using i empty by auto
    show ?thesis using e ne origin [OF i] by (simp add: parts_3857_skip_null del: not_None_eq)
  qed
qed

theorem extract_mainland_skips_null_witness:
  "map geometry (rows italy) =
     [Some (MultiPolygon [square 0 0 1, square 10 10 3, square 20 0 3]), None,
      Some (Polygon (square 5 5 2))] \<and>
   parts_3857 example_lib (italy\<lparr>rows := filter (\<lambda>r. geometry r \<noteq> None) (rows italy)\<rparr>) =
     Inr [Polygon (square 0 0 2), Polygon (square 20 20 6), Polygon (square 40 0 6),
          Polygon (square 10 10 4)] \<and>
   extract_mainland example_lib italy =
     Inr (Polygon (square 10 10 3), Fresh (EPSG 4326) [Some (Polygon (square 10 10 3))]) \<and>
   (\<exists>r\<in>set (rows italy). \<exists>g. geometry r = Some g \<and>
      Polygon (square 10 10 3) \<in> to_crs_geometry example_lib (EPSG 3857) (crs italy) `
         set (parts_of (Some (to_crs_geometry example_lib (crs italy) (EPSG 3857) g)))) \<and>
   parts_of (geometry (rows italy ! 0)) \<noteq> []"
proof -
  have g: "map geometry (rows italy) =
     [Some (MultiPolygon [square 0 0 1, square 10 10 3, square 20 0 3]), None,
      Some (Polygon (square 5 5 2))]"
    by (simp add: italy_def wgs84_def country_def)
  have p: "parts_3857 example_lib italy =
     Inr [Polygon (square 0 0 2), Polygon (square 20 20 6), Polygon (square 40 0 6),
          Polygon (square 10 10 4)]"
    unfolding parts_3857_parts_of italy_parts by (rule refl)
  have n: "parts_of (geometry (rows italy ! 0)) \<noteq> []"
    by (simp add: italy_def wgs84_def country_def)
  note t = extract_mainland_skips_null [of example_lib italy]
  have t2: "parts_3857 example_lib (italy\<lparr>rows := filter (\<lambda>r. geometry r \<noteq> None) (rows italy)\<rparr>) =
     parts_3857 example_lib italy"
    using t by (elim conjE)
  have t3: "\<exists>r\<in>set (rows italy). \<exists>g. geometry r = Some g \<and>
      Polygon (square 10 10 3) \<in> to_crs_geometry example_lib (EPSG 3857) (crs italy) `
         set (parts_of (Some (to_crs_geometry example_lib (crs italy) (EPSG 3857) g)))"
    using t italy_extract by (elim conjE) blast
  show ?thesis using g p n t2 t3 italy_extract by simp
qed

end
